theory Spec2Isabelle
  imports Main
begin

section \<open>Billing handlers of handler.go\<close>

text \<open>
  A shallow embedding of the request handlers \<^verbatim>\<open>Subscribe.Handle\<close>,
  \<^verbatim>\<open>Unsubscribe.Handle\<close> and \<^verbatim>\<open>StripeHook.Handle\<close> of
  \<^verbatim>\<open>handler.go\<close>, with \<^verbatim>\<open>wrapCardError\<close>.

  Go pointers that the handlers test against \<^verbatim>\<open>nil\<close> or dereference are
  \<open>option\<close> values; dereferencing \<open>None\<close> is the result \<open>NilPanic\<close>. A Go
  \<^verbatim>\<open>error\<close> return is \<open>error option\<close> (\<open>None\<close> is \<^verbatim>\<open>nil\<close>). Every call a
  handler makes to a collaborator (account store, billing provider, response writer,
  logger, analytics) is appended to the \<open>calls\<close> of the world, in program order; what
  the collaborator answers is read from an environment \<open>h\<close> of answer functions, which
  stands for the embedded \<^verbatim>\<open>*Server\<close> and the packages the file imports.
\<close>

subsection \<open>Data\<close>

text \<open>\<^verbatim>\<open>stripe.Plan\<close>, \<^verbatim>\<open>stripe.Sub\<close>, \<^verbatim>\<open>stripe.Customer\<close>: the fields the handlers
  read. \<^verbatim>\<open>Sub.Plan\<close> is a pointer (\<^verbatim>\<open>s.Plan.ID\<close>, line 150).\<close>

record plan =
  Plan_ID :: string

record sub =
  Sub_ID :: string
  Sub_Plan :: "plan option"
  Sub_Status :: string
  Sub_TrialEnd :: int

record customer =
  Customer_ID :: string
  Customer_Email :: string
  Customer_Subs :: "sub list"

text \<open>The billing \<^verbatim>\<open>Account\<close> of this repository. Its \<^verbatim>\<open>Customer\<close> field has the type
  of \<^verbatim>\<open>c\<close> in line 235, \<^verbatim>\<open>*stripe.Customer\<close>, so it may be \<^verbatim>\<open>nil\<close>.\<close>

record account =
  Account_Email :: string
  Account_TrackingID :: string
  Account_Customer :: "customer option"

text \<open>\<^verbatim>\<open>pc.AuthToken\<close>: \<^verbatim>\<open>a.Account().Email\<close> is all the handlers read of it.\<close>

record pc_account =
  pc_Email :: string

record auth_token =
  Account :: pc_account

text \<open>Go errors. \<^verbatim>\<open>stripe.Error\<close> carries its \<^verbatim>\<open>Type\<close>, a string.\<close>

record stripe_Error =
  Type :: string
  Msg :: string

datatype error =
    InvalidAuthToken
  | BadRequest string
  | Stripe_Error stripe_Error
  | StripeError stripe_Error
  | OtherError string

text \<open>\<open>Stripe_Error e\<close> is an error value of dynamic type \<^verbatim>\<open>*stripe.Error\<close>;
  \<open>StripeError e\<close> is this repository's wrapper \<^verbatim>\<open>&StripeError{e}\<close>; \<open>OtherError\<close> is
  an error of any other type (network, storage, JSON).\<close>

text \<open>\<^verbatim>\<open>*http.Request\<close>: the posted form, the URL query and the outcome of
  \<^verbatim>\<open>ioutil.ReadAll(r.Body)\<close>.\<close>

record request =
  PostFormValue :: "string \<Rightarrow> string"
  URL_Query_Get :: "string \<Rightarrow> string"
  Body :: "error + string"

text \<open>\<^verbatim>\<open>stripe.Event\<close>: \<^verbatim>\<open>event.Type\<close> and \<^verbatim>\<open>event.Data\<close>, a pointer to the
  \<^verbatim>\<open>stripe.EventData\<close> with the raw payload \<^verbatim>\<open>Raw\<close> and the decoded object \<^verbatim>\<open>Obj\<close>,
  of which the handler looks up the value under a key. An event decoded from a body
  without \<^verbatim>\<open>data\<close> has \<^verbatim>\<open>Data == nil\<close>.\<close>

record event_data =
  Data_Raw :: string
  Data_Obj :: "string \<Rightarrow> string"

record event =
  Event_Type :: string
  Event_Data :: "event_data option"

record tracking_event =
  Name :: string
  Properties :: "(string \<times> string) list"

datatype call =
    Call_AccountFromEmail string bool
  | Call_SetPaymentSource account string
  | Call_EnsureSubscription account
  | Call_sub_Update string bool
  | Call_sub_Cancel string
  | Call_customer_Get string
  | Call_Storage_Put account
  | Call_Redirect string nat
  | Call_Info_Printf string
  | Call_go_Track tracking_event

text \<open>The world: the Account Store (email to persisted Account) and the calls made so
  far. Modelled from the spec: the store changes by \<^verbatim>\<open>Storage.Put\<close> alone. The code of
  \<^verbatim>\<open>AccountFromEmail\<close> and of \<^verbatim>\<open>EnsureSubscription\<close> (which is handed \<^verbatim>\<open>h.Storage\<close>)
  is not in \<^verbatim>\<open>handler.go\<close>; by the spec the former gets or creates the Account and the
  latter attaches its results to the Account in memory, the caller persisting.\<close>

record world =
  store :: "string \<rightharpoonup> account"
  calls :: "call list"

datatype result = Return "error option" | NilPanic

text \<open>
  The collaborators, none of which is defined in \<^verbatim>\<open>handler.go\<close>. One run of a handler
  calls each of them at most once, so an answer that is a function of the call's
  arguments covers whatever the collaborator does, and whatever state it keeps. Those
  that in Go mutate the Account behind \<^verbatim>\<open>acc\<close> return the Account after the mutation.
  \<^item> \<open>AccountFromEmail\<close>: \<^verbatim>\<open>h.AccountFromEmail(email, create)\<close>;
  \<^item> \<open>HasActiveSubscription\<close>: \<^verbatim>\<open>acc.HasActiveSubscription()\<close>;
  \<^item> \<open>SetPaymentSource\<close>: \<^verbatim>\<open>acc.SetPaymentSource(token)\<close>;
  \<^item> \<open>EnsureSubscription\<close>: \<^verbatim>\<open>EnsureSubscription(acc, h.Storage)\<close>;
  \<^item> \<open>sub_Update\<close>: \<^verbatim>\<open>sub.Update(id, &stripe.SubParams{TrialEndNow: true})\<close>;
  \<^item> \<open>sub_Cancel\<close>: \<^verbatim>\<open>sub.Cancel(id, nil)\<close>;
  \<^item> \<open>customer_Get\<close>: \<^verbatim>\<open>customer.Get(id, nil)\<close>;
  \<^item> \<open>Storage_Put_error\<close>: the error of \<^verbatim>\<open>h.Storage.Put(acc)\<close>, if any;
  \<^item> \<open>json_Unmarshal_Event\<close>, \<open>json_Unmarshal_Customer\<close>: \<^verbatim>\<open>json.Unmarshal\<close> into
    a \<^verbatim>\<open>stripe.Event\<close> and a \<^verbatim>\<open>stripe.Customer\<close>;
  \<^item> \<open>FormatRequest\<close>: \<^verbatim>\<open>pc.FormatRequest(r)\<close>;
  \<^item> \<open>sourceFromRef\<close>: \<^verbatim>\<open>sourceFromRef(ref)\<close>.
\<close>

record env =
  AccountFromEmail :: "string \<Rightarrow> bool \<Rightarrow> error + account"
  HasActiveSubscription :: "account \<Rightarrow> bool"
  SetPaymentSource :: "account \<Rightarrow> string \<Rightarrow> error + account"
  EnsureSubscription :: "account \<Rightarrow> error + account"
  sub_Update :: "string \<Rightarrow> error + sub"
  sub_Cancel :: "string \<Rightarrow> error + sub"
  customer_Get :: "string \<Rightarrow> error + customer"
  Storage_Put_error :: "account \<Rightarrow> error option"
  json_Unmarshal_Event :: "string \<Rightarrow> error + event"
  json_Unmarshal_Customer :: "string \<Rightarrow> error + customer"
  FormatRequest :: "request \<Rightarrow> string"
  sourceFromRef :: "string \<Rightarrow> string"

subsection \<open>Calls and the store\<close>

definition invoke :: "call \<Rightarrow> world \<Rightarrow> world" where
  "invoke c w = w\<lparr>calls := calls w @ [c]\<rparr>"

text \<open>Modelled from the spec: \<^verbatim>\<open>h.Storage.Put\<close> is not in \<^verbatim>\<open>handler.go\<close>; the spec
  calls it an upsert of the Account under its email, \<open>put(Account) -> ok | Error\<close>.
  A failed put leaves the store as it was.\<close>

definition Storage_Put :: "env \<Rightarrow> account \<Rightarrow> world \<Rightarrow> error option \<times> world" where
  "Storage_Put h acc w =
     (case Storage_Put_error h acc of
        Some err \<Rightarrow> (Some err, invoke (Call_Storage_Put acc) w)
      | None \<Rightarrow> (None, (invoke (Call_Storage_Put acc) w)
                         \<lparr>store := (store w)(Account_Email acc \<mapsto> acc)\<rparr>))"

text \<open>What a trace shows: the calls to the billing provider, the Accounts handed to
  \<^verbatim>\<open>Storage.Put\<close>, the redirect targets and the names of the analytics events.\<close>

fun is_provider_call :: "call \<Rightarrow> bool" where
  "is_provider_call (Call_SetPaymentSource _ _) = True"
| "is_provider_call (Call_EnsureSubscription _) = True"
| "is_provider_call (Call_sub_Update _ _) = True"
| "is_provider_call (Call_sub_Cancel _) = True"
| "is_provider_call (Call_customer_Get _) = True"
| "is_provider_call _ = False"

definition provider_calls :: "world \<Rightarrow> call list" where
  "provider_calls w = filter is_provider_call (calls w)"

fun put_of :: "call \<Rightarrow> account list" where
  "put_of (Call_Storage_Put acc) = [acc]"
| "put_of _ = []"

definition Storage_Puts :: "world \<Rightarrow> account list" where
  "Storage_Puts w = concat (map put_of (calls w))"

fun redirect_of :: "call \<Rightarrow> string list" where
  "redirect_of (Call_Redirect url code) = [url]"
| "redirect_of _ = []"

definition Redirects :: "world \<Rightarrow> string list" where
  "Redirects w = concat (map redirect_of (calls w))"

fun track_of :: "call \<Rightarrow> string list" where
  "track_of (Call_go_Track ev) = [Name ev]"
| "track_of _ = []"

definition Tracked :: "world \<Rightarrow> string list" where
  "Tracked w = concat (map track_of (calls w))"

subsection \<open>The Account's subscription\<close>

text \<open>Modelled from the spec: \<^verbatim>\<open>acc.Subscription()\<close> is not in \<^verbatim>\<open>handler.go\<close>. The
  spec's Account has a nullable subscription reference that is owned by the Account
  and derived from its customer; here it is the first of the customer's subscriptions,
  absent when there is no customer or no subscription.\<close>

definition Subscription :: "account \<Rightarrow> sub option" where
  "Subscription acc =
     (case Account_Customer acc of
        None \<Rightarrow> None
      | Some c \<Rightarrow> (case Customer_Subs c of [] \<Rightarrow> None | s # _ \<Rightarrow> Some s))"

text \<open>The assignment \<^verbatim>\<open>*s = *s_\<close> (lines 126 and 177) through the pointer \<^verbatim>\<open>s\<close> to the
  Account's subscription: the Sub object that \<open>Subscription\<close> reads receives the fields
  of \<^verbatim>\<open>*s_\<close>. No field of the Account or of its customer is assigned, so the reference
  itself stays. The handlers assign only through a non-nil \<^verbatim>\<open>s\<close>.\<close>

definition assign_Subscription :: "account \<Rightarrow> sub \<Rightarrow> account" where
  "assign_Subscription acc s' =
     (case Account_Customer acc of
        None \<Rightarrow> acc
      | Some c \<Rightarrow>
          (case Customer_Subs c of
             [] \<Rightarrow> acc
           | s # rest \<Rightarrow> acc\<lparr>Account_Customer := Some (c\<lparr>Customer_Subs := s' # rest\<rparr>)\<rparr>))"

subsection \<open>wrapCardError (lines 84-92)\<close>

text \<open>\<^verbatim>\<open>stripe.ErrorTypeCard\<close>, a constant of the stripe package.\<close>

definition ErrorTypeCard :: string where
  "ErrorTypeCard = ''card_error''"

definition wrapCardError :: "error \<Rightarrow> error" where
  "wrapCardError err =
     (case err of
        Stripe_Error stripeErr \<Rightarrow>
          if Type stripeErr = ErrorTypeCard then StripeError stripeErr else err
      | _ \<Rightarrow> err)"

text \<open>The two kinds of error a caller of \<^verbatim>\<open>Subscribe.Handle\<close> tells apart: a card error
  of the provider is a \<^verbatim>\<open>*stripe.Error\<close> whose type is \<^verbatim>\<open>ErrorTypeCard\<close>; the kind it
  is surfaced as is the wrapper \<^verbatim>\<open>*StripeError\<close>.\<close>

definition is_card_error :: "error \<Rightarrow> bool" where
  "is_card_error err =
     (case err of Stripe_Error stripeErr \<Rightarrow> Type stripeErr = ErrorTypeCard | _ \<Rightarrow> False)"

definition is_StripeError :: "error \<Rightarrow> bool" where
  "is_StripeError err = (case err of StripeError stripeErr \<Rightarrow> True | _ \<Rightarrow> False)"

subsection \<open>Subscribe.Handle (lines 94-156)\<close>

text \<open>Lines 133-155, after the Account has been stored. The arguments of the
  \<^verbatim>\<open>go h.Track(...)\<close> statement are evaluated by the handler itself, so a \<^verbatim>\<open>nil\<close>
  \<^verbatim>\<open>s.Plan\<close> panics there; the call is then dispatched and its error never read.\<close>

definition Subscribe_respond ::
  "env \<Rightarrow> request \<Rightarrow> bool \<Rightarrow> account \<Rightarrow> sub \<Rightarrow> world \<Rightarrow> result \<times> world" where
  "Subscribe_respond h r newSubscription acc s w =
     (let eventName = (if newSubscription then ''Buy Subscription''
                       else ''Update Payment Method'');
          action = (if newSubscription then ''subscribed'' else ''payment-updated'');
          w1 = invoke (Call_Redirect (''/dashboard/?action='' @ action) 302) w;
          w2 = invoke (Call_Info_Printf
                 (FormatRequest h r @ '' - subcribe - '' @ Account_Email acc @ [CHR 0x0A])) w1
      in case Sub_Plan s of
           None \<Rightarrow> (NilPanic, w2)
         | Some p \<Rightarrow>
             (Return None,
              invoke (Call_go_Track \<lparr>Name = eventName,
                        Properties = [(''Plan'', Plan_ID p),
                                      (''Source'', sourceFromRef h (URL_Query_Get r ''ref''))]\<rparr>) w2))"

text \<open>Lines 116-131. Modelled from the spec: \<^verbatim>\<open>EnsureSubscription\<close> is not in
  \<^verbatim>\<open>handler.go\<close>; by the spec it attaches the Subscription to the Account in memory
  (the caller persists) and returns the Account's subscription reference. So \<^verbatim>\<open>s\<close> is
  \<open>Subscription\<close> of the Account it returns; were it \<^verbatim>\<open>nil\<close>, \<^verbatim>\<open>s.ID\<close> would panic.\<close>

definition Subscribe_ensure ::
  "env \<Rightarrow> request \<Rightarrow> bool \<Rightarrow> account \<Rightarrow> world \<Rightarrow> result \<times> world" where
  "Subscribe_ensure h r newSubscription acc w =
     (case EnsureSubscription h acc of
        Inl err \<Rightarrow> (Return (Some err), invoke (Call_EnsureSubscription acc) w)
      | Inr acc1 \<Rightarrow>
          (let w1 = invoke (Call_EnsureSubscription acc) w
           in case Subscription acc1 of
                None \<Rightarrow> (NilPanic, w1)
              | Some s \<Rightarrow>
                  (case sub_Update h (Sub_ID s) of
                     Inl err \<Rightarrow> (Return (Some (wrapCardError err)),
                                 invoke (Call_sub_Update (Sub_ID s) True) w1)
                   | Inr s' \<Rightarrow>
                       (let w2 = invoke (Call_sub_Update (Sub_ID s) True) w1;
                            acc2 = assign_Subscription acc1 s'
                        in case Storage_Put h acc2 w2 of
                             (Some err, w3) \<Rightarrow> (Return (Some err), w3)
                           | (None, w3) \<Rightarrow>
                               Subscribe_respond h r newSubscription acc2 s' w3))))"

definition Subscribe_Handle ::
  "env \<Rightarrow> request \<Rightarrow> auth_token option \<Rightarrow> world \<Rightarrow> result \<times> world" where
  "Subscribe_Handle h r a w =
     (case a of
        None \<Rightarrow> (Return (Some InvalidAuthToken), w)
      | Some tok \<Rightarrow>
          (let token = PostFormValue r ''stripeToken''
           in if token = '''' then
                (Return (Some (BadRequest ''No stripe token provided'')), w)
              else
                (case AccountFromEmail h (pc_Email (Account tok)) True of
                   Inl err \<Rightarrow>
                     (Return (Some err),
                      invoke (Call_AccountFromEmail (pc_Email (Account tok)) True) w)
                 | Inr acc \<Rightarrow>
                     (let w1 = invoke (Call_AccountFromEmail (pc_Email (Account tok)) True) w;
                          newSubscription = \<not> HasActiveSubscription h acc
                      in case SetPaymentSource h acc token of
                           Inl err \<Rightarrow> (Return (Some (wrapCardError err)),
                                       invoke (Call_SetPaymentSource acc token) w1)
                         | Inr acc1 \<Rightarrow>
                             Subscribe_ensure h r newSubscription acc1
                               (invoke (Call_SetPaymentSource acc token) w1)))))"

subsection \<open>Unsubscribe.Handle (lines 162-193)\<close>

text \<open>There is no \<^verbatim>\<open>nil\<close> test on \<^verbatim>\<open>a\<close>: \<^verbatim>\<open>a.Account()\<close> reads through the
  pointer.\<close>

definition Unsubscribe_Handle ::
  "env \<Rightarrow> request \<Rightarrow> auth_token option \<Rightarrow> world \<Rightarrow> result \<times> world" where
  "Unsubscribe_Handle h r a w =
     (case a of
        None \<Rightarrow> (NilPanic, w)
      | Some tok \<Rightarrow>
          (case AccountFromEmail h (pc_Email (Account tok)) True of
             Inl err \<Rightarrow>
               (Return (Some err),
                invoke (Call_AccountFromEmail (pc_Email (Account tok)) True) w)
           | Inr acc \<Rightarrow>
               (let w1 = invoke (Call_AccountFromEmail (pc_Email (Account tok)) True) w
                in case Subscription acc of
                     None \<Rightarrow>
                       (Return (Some (BadRequest
                          ''This account does not have an active subscription'')), w1)
                   | Some s \<Rightarrow>
                       (case sub_Cancel h (Sub_ID s) of
                          Inl err \<Rightarrow> (Return (Some err), invoke (Call_sub_Cancel (Sub_ID s)) w1)
                        | Inr s' \<Rightarrow>
                            (let w2 = invoke (Call_sub_Cancel (Sub_ID s)) w1;
                                 acc1 = assign_Subscription acc s'
                             in case Storage_Put h acc1 w2 of
                                  (Some err, w3) \<Rightarrow> (Return (Some err), w3)
                                | (None, w3) \<Rightarrow>
                                    (let w4 = invoke (Call_Redirect
                                                ''/dashboard/?action=unsubscribed'' 302) w3;
                                         w5 = invoke (Call_Info_Printf
                                                (FormatRequest h r @ '' - unsubscribe - ''
                                                 @ Account_Email acc1 @ [CHR 0x0A])) w4
                                     in (Return None,
                                         invoke (Call_go_Track
                                                  \<lparr>Name = ''Cancel Subscription'',
                                                   Properties = []\<rparr>) w5)))))))"

subsection \<open>StripeHook.Handle (lines 199-246)\<close>

text \<open>\<^verbatim>\<open>event.GetObjValue(key)\<close>, a method of the stripe package that reads
  \<^verbatim>\<open>e.Data.Obj\<close>: \<open>None\<close> is the panic on a \<^verbatim>\<open>nil\<close> \<^verbatim>\<open>e.Data\<close>.\<close>

definition GetObjValue :: "event \<Rightarrow> string \<Rightarrow> string option" where
  "GetObjValue event key =
     (case Event_Data event of None \<Rightarrow> None | Some d \<Rightarrow> Some (Data_Obj d key))"

text \<open>The \<^verbatim>\<open>switch\<close> of lines 211-223. \<open>Inl\<close> is what the handler returns at once (an
  error, or the panic of reading through a \<^verbatim>\<open>nil\<close> \<^verbatim>\<open>event.Data\<close> in
  \<^verbatim>\<open>event.Data.Raw\<close> and in \<^verbatim>\<open>event.GetObjValue\<close>, both evaluated before the call they
  are arguments of); \<open>Inr\<close> is the Customer the event yields, \<open>None\<close> (the \<^verbatim>\<open>nil\<close> that
  \<^verbatim>\<open>c\<close> was declared with) when no \<^verbatim>\<open>case\<close> matches.\<close>

definition StripeHook_switch ::
  "env \<Rightarrow> event \<Rightarrow> world \<Rightarrow> (result + customer option) \<times> world" where
  "StripeHook_switch h event w =
     (if Event_Type event = ''customer.created'' \<or> Event_Type event = ''customer.updated'' then
        (case Event_Data event of
           None \<Rightarrow> (Inl NilPanic, w)
         | Some d \<Rightarrow>
             (case json_Unmarshal_Customer h (Data_Raw d) of
                Inl err \<Rightarrow> (Inl (Return (Some err)), w)
              | Inr c \<Rightarrow> (Inr (Some c), w)))
      else if Event_Type event = ''customer.subscription.created''
            \<or> Event_Type event = ''customer.subscription.updated''
            \<or> Event_Type event = ''customer.subscription.deleted'' then
        (case GetObjValue event ''customer'' of
           None \<Rightarrow> (Inl NilPanic, w)
         | Some cid \<Rightarrow>
             (case customer_Get h cid of
                Inl err \<Rightarrow> (Inl (Return (Some err)), invoke (Call_customer_Get cid) w)
              | Inr c \<Rightarrow> (Inr (Some c), invoke (Call_customer_Get cid) w)))
      else (Inr None, w))"

text \<open>A recognized event that yields the Customer \<open>c\<close>: a customer event whose payload
  deserializes into \<open>c\<close>, or a subscription event whose customer the provider returns
  as \<open>c\<close>. These are the two ways the \<^verbatim>\<open>switch\<close> leaves \<^verbatim>\<open>c\<close> non-nil.\<close>

definition yields_Customer :: "env \<Rightarrow> event \<Rightarrow> customer \<Rightarrow> bool" where
  "yields_Customer h event c \<longleftrightarrow>
     (case Event_Data event of
        None \<Rightarrow> False
      | Some d \<Rightarrow>
          (Event_Type event = ''customer.created'' \<or> Event_Type event = ''customer.updated'')
            \<and> json_Unmarshal_Customer h (Data_Raw d) = Inr c
          \<or> (Event_Type event = ''customer.subscription.created''
              \<or> Event_Type event = ''customer.subscription.updated''
              \<or> Event_Type event = ''customer.subscription.deleted'')
            \<and> customer_Get h (Data_Obj d ''customer'') = Inr c)"

text \<open>The body of \<^verbatim>\<open>if c != nil\<close>, lines 226-242. \<^verbatim>\<open>acc.Customer.ID\<close> reads through
  \<^verbatim>\<open>acc.Customer\<close> with no \<^verbatim>\<open>nil\<close> test; \<^verbatim>\<open>h.Storage.Put(acc)\<close> comes after the
  \<^verbatim>\<open>if\<close> of the guard, not inside it.\<close>

definition StripeHook_apply ::
  "env \<Rightarrow> request \<Rightarrow> event \<Rightarrow> customer \<Rightarrow> world \<Rightarrow> result \<times> world" where
  "StripeHook_apply h r event c w =
     (case AccountFromEmail h (Customer_Email c) True of
        Inl err \<Rightarrow> (Return (Some err), invoke (Call_AccountFromEmail (Customer_Email c) True) w)
      | Inr acc \<Rightarrow>
          (let w1 = invoke (Call_AccountFromEmail (Customer_Email c) True) w
           in case Account_Customer acc of
                None \<Rightarrow> (NilPanic, w1)
              | Some old \<Rightarrow>
                  (let acc1 = (if Customer_ID old = Customer_ID c
                               then acc\<lparr>Account_Customer := Some c\<rparr> else acc)
                   in case Storage_Put h acc1 w1 of
                        (Some err, w2) \<Rightarrow> (Return (Some err), w2)
                      | (None, w2) \<Rightarrow>
                          (Return None,
                           invoke (Call_Info_Printf
                                     (FormatRequest h r @ '' - stripe_hook - ''
                                      @ Account_Email acc1 @ '':'' @ Event_Type event)) w2))))"

definition StripeHook_Handle ::
  "env \<Rightarrow> request \<Rightarrow> auth_token option \<Rightarrow> world \<Rightarrow> result \<times> world" where
  "StripeHook_Handle h r a w =
     (case Body r of
        Inl err \<Rightarrow> (Return (Some err), w)
      | Inr body \<Rightarrow>
          (case json_Unmarshal_Event h body of
             Inl err \<Rightarrow> (Return (Some err), w)
           | Inr event \<Rightarrow>
               (case StripeHook_switch h event w of
                  (Inl res, w1) \<Rightarrow> (res, w1)
                | (Inr None, w1) \<Rightarrow> (Return None, w1)
                | (Inr (Some c), w1) \<Rightarrow> StripeHook_apply h r event c w1)))"

subsection \<open>Concrete inputs\<close>

text \<open>One Account, \<open>a@b.com\<close>, with customer \<open>cus_1\<close> on a trial subscription; a second
  customer \<open>cus_2\<close> with the same email; the answers of a provider and a store that
  succeed. The theorems below are instantiated at these.\<close>

definition monthly :: plan where
  "monthly = \<lparr>Plan_ID = ''padlock-cloud-monthly''\<rparr>"

definition sub_trialing :: sub where
  "sub_trialing = \<lparr>Sub_ID = ''sub_1'', Sub_Plan = Some monthly,
                    Sub_Status = ''trialing'', Sub_TrialEnd = 1500000000\<rparr>"

definition sub_active :: sub where
  "sub_active = \<lparr>Sub_ID = ''sub_1'', Sub_Plan = Some monthly,
                  Sub_Status = ''active'', Sub_TrialEnd = 1490000000\<rparr>"

definition sub_canceled :: sub where
  "sub_canceled = \<lparr>Sub_ID = ''sub_1'', Sub_Plan = Some monthly,
                    Sub_Status = ''canceled'', Sub_TrialEnd = 1490000000\<rparr>"

definition cus_1 :: customer where
  "cus_1 = \<lparr>Customer_ID = ''cus_1'', Customer_Email = ''a@b.com'',
             Customer_Subs = [sub_trialing]\<rparr>"

definition cus_1_new :: customer where
  "cus_1_new = \<lparr>Customer_ID = ''cus_1'', Customer_Email = ''a@b.com'',
                 Customer_Subs = [sub_active]\<rparr>"

definition cus_2 :: customer where
  "cus_2 = \<lparr>Customer_ID = ''cus_2'', Customer_Email = ''a@b.com'',
             Customer_Subs = []\<rparr>"

definition acc_1 :: account where
  "acc_1 = \<lparr>Account_Email = ''a@b.com'', Account_TrackingID = ''t1'',
             Account_Customer = Some cus_1\<rparr>"

definition acc_fresh :: account where
  "acc_fresh = \<lparr>Account_Email = ''a@b.com'', Account_TrackingID = ''t1'',
                 Account_Customer = None\<rparr>"

definition acc_paid :: account where
  "acc_paid = \<lparr>Account_Email = ''a@b.com'', Account_TrackingID = ''t1'',
                Account_Customer = Some cus_1_new\<rparr>"

definition alice :: auth_token where
  "alice = \<lparr>Account = \<lparr>pc_Email = ''a@b.com''\<rparr>\<rparr>"

definition card_declined :: error where
  "card_declined = Stripe_Error \<lparr>Type = ErrorTypeCard, Msg = ''Your card was declined.''\<rparr>"

definition api_down :: error where
  "api_down = Stripe_Error \<lparr>Type = ''api_error'', Msg = ''Service unavailable''\<rparr>"

definition post_token :: request where
  "post_token = \<lparr>PostFormValue = (\<lambda>k. if k = ''stripeToken'' then ''tok_visa'' else ''''),
                  URL_Query_Get = (\<lambda>k. ''''), Body = Inr ''''\<rparr>"

definition post_empty :: request where
  "post_empty = \<lparr>PostFormValue = (\<lambda>k. ''''), URL_Query_Get = (\<lambda>k. ''''), Body = Inr ''''\<rparr>"

definition post_event :: "string \<Rightarrow> request" where
  "post_event body = \<lparr>PostFormValue = (\<lambda>k. ''''), URL_Query_Get = (\<lambda>k. ''''),
                       Body = Inr body\<rparr>"

definition w0 :: world where
  "w0 = \<lparr>store = Map.empty, calls = []\<rparr>"

text \<open>The body of a test event is its type; its payload is the customer \<open>c\<close>.\<close>

definition test_event :: "string \<Rightarrow> customer \<Rightarrow> event" where
  "test_event type c =
     \<lparr>Event_Type = type,
      Event_Data = Some \<lparr>Data_Raw = ''{}'', Data_Obj = (\<lambda>k. Customer_ID c)\<rparr>\<rparr>"

definition server :: "account \<Rightarrow> customer \<Rightarrow> env" where
  "server acc c =
     \<lparr>AccountFromEmail = (\<lambda>email create. Inr acc),
      HasActiveSubscription =
        (\<lambda>acc. case Subscription acc of None \<Rightarrow> False | Some s \<Rightarrow> Sub_Status s = ''active''),
      SetPaymentSource = (\<lambda>acc token. Inr acc),
      EnsureSubscription = (\<lambda>acc. Inr acc),
      sub_Update = (\<lambda>id. Inr sub_active),
      sub_Cancel = (\<lambda>id. Inr sub_canceled),
      customer_Get = (\<lambda>id. Inr c),
      Storage_Put_error = (\<lambda>acc. None),
      json_Unmarshal_Event = (\<lambda>body. Inr (test_event body c)),
      json_Unmarshal_Customer = (\<lambda>raw. Inr c),
      FormatRequest = (\<lambda>r. ''POST''),
      sourceFromRef = (\<lambda>ref. ref)\<rparr>"

text \<open>The same answers with one call failing.\<close>

definition attach_fails :: "error \<Rightarrow> env \<Rightarrow> env" where
  "attach_fails e h = h\<lparr>SetPaymentSource := (\<lambda>acc token. Inl e)\<rparr>"

definition ensure_fails :: "error \<Rightarrow> env \<Rightarrow> env" where
  "ensure_fails e h = h\<lparr>EnsureSubscription := (\<lambda>acc. Inl e)\<rparr>"

definition update_fails :: "error \<Rightarrow> env \<Rightarrow> env" where
  "update_fails e h = h\<lparr>sub_Update := (\<lambda>id. Inl e)\<rparr>"

definition Put_fails :: "error \<Rightarrow> env \<Rightarrow> env" where
  "Put_fails e h = h\<lparr>Storage_Put_error := (\<lambda>acc. Some e)\<rparr>"

section \<open>Properties\<close>

subsection \<open>Calls, store and the subscription slot\<close>

lemmas inputs = server_def test_event_def post_token_def post_empty_def post_event_def
  alice_def w0_def acc_1_def acc_fresh_def acc_paid_def cus_1_def cus_1_new_def cus_2_def
  sub_trialing_def sub_active_def sub_canceled_def monthly_def
  attach_fails_def ensure_fails_def update_fails_def Put_fails_def

lemmas handlers = Subscribe_Handle_def Subscribe_ensure_def Subscribe_respond_def
  Unsubscribe_Handle_def StripeHook_Handle_def StripeHook_switch_def StripeHook_apply_def
  GetObjValue_def
  Storage_Put_def invoke_def Subscription_def assign_Subscription_def Let_def

lemmas observations = Redirects_def Tracked_def Storage_Puts_def provider_calls_def

lemma calls_invoke: "calls (invoke c w) = calls w @ [c]"
  by (simp add: invoke_def)

lemma store_invoke: "store (invoke c w) = store w"
  by (simp add: invoke_def)

lemma provider_calls_invoke:
  "provider_calls (invoke c w) = provider_calls w @ (if is_provider_call c then [c] else [])"
  by (simp add: provider_calls_def invoke_def)

lemma Storage_Puts_invoke: "Storage_Puts (invoke c w) = Storage_Puts w @ put_of c"
  by (simp add: Storage_Puts_def invoke_def)

lemma Redirects_invoke: "Redirects (invoke c w) = Redirects w @ redirect_of c"
  by (simp add: Redirects_def invoke_def)

lemma Tracked_invoke: "Tracked (invoke c w) = Tracked w @ track_of c"
  by (simp add: Tracked_def invoke_def)

lemma Redirects_Storage_Put: "Storage_Put h acc w = (e, w') \<Longrightarrow> Redirects w' = Redirects w"
  by (auto simp: Storage_Put_def Redirects_def invoke_def split: option.splits)

lemma Tracked_Storage_Put: "Storage_Put h acc w = (e, w') \<Longrightarrow> Tracked w' = Tracked w"
  by (auto simp: Storage_Put_def Tracked_def invoke_def split: option.splits)

lemma Subscription_assign:
  "Subscription acc = Some s \<Longrightarrow> Subscription (assign_Subscription acc s') = Some s'"
  by (auto simp: Subscription_def assign_Subscription_def split: option.splits list.splits)

lemma Account_Email_assign: "Account_Email (assign_Subscription acc s') = Account_Email acc"
  by (simp add: assign_Subscription_def split: option.splits list.splits)

lemma observations_w0:
  "Storage_Puts w0 = []" "provider_calls w0 = []" "Redirects w0 = []" "Tracked w0 = []"
  "calls w0 = []" "store w0 k = None"
  by (simp_all add: observations w0_def)

lemma post_token_stripeToken: "PostFormValue post_token ''stripeToken'' = ''tok_visa''"
  by (simp add: post_token_def)

lemma post_empty_stripeToken: "PostFormValue post_empty ''stripeToken'' = ''''"
  by (simp add: post_empty_def)

lemma Subscription_acc_1: "Subscription acc_1 = Some sub_trialing"
  by (simp add: Subscription_def acc_1_def cus_1_def)

subsection \<open>The nil auth token\<close>

lemma Unsubscribe_first_call:
  "\<exists>rest. calls (snd (Unsubscribe_Handle h r (Some tok) w)) =
     calls w @ Call_AccountFromEmail (pc_Email (Account tok)) True # rest"
  by (simp add: Unsubscribe_Handle_def Storage_Put_def Let_def calls_invoke
        split: sum.split option.split prod.split)

lemma Unsubscribe_no_panic: "fst (Unsubscribe_Handle h r (Some tok) w) \<noteq> NilPanic"
  by (simp add: Unsubscribe_Handle_def Storage_Put_def Let_def
        split: sum.split option.split prod.split)

text \<open>
  C10. With a \<^verbatim>\<open>nil\<close> auth token, \<^verbatim>\<open>Subscribe.Handle\<close> returns the invalid-auth-token
  error and has made no call at all: the form is not read, neither provider nor store is
  contacted. \<^verbatim>\<open>Unsubscribe.Handle\<close> has no such test: with a \<^verbatim>\<open>nil\<close> token it panics on
  \<^verbatim>\<open>a.Account()\<close> before any call. With a token it never panics, and its first call is
  \<^verbatim>\<open>AccountFromEmail\<close> with the email read through the token.
\<close>

theorem nil_auth_token:
  "Subscribe_Handle h r None w = (Return (Some InvalidAuthToken), w)
   \<and> Unsubscribe_Handle h r None w = (NilPanic, w)
   \<and> (\<forall>tok. fst (Unsubscribe_Handle h r (Some tok) w) \<noteq> NilPanic
          \<and> (\<exists>rest. calls (snd (Unsubscribe_Handle h r (Some tok) w)) =
                 calls w @ Call_AccountFromEmail (pc_Email (Account tok)) True # rest))"
proof -
  have "Subscribe_Handle h r None w = (Return (Some InvalidAuthToken), w)"
    by (simp add: Subscribe_Handle_def)
  moreover have "Unsubscribe_Handle h r None w = (NilPanic, w)"
    by (simp add: Unsubscribe_Handle_def)
  ultimately show ?thesis
    using Unsubscribe_first_call Unsubscribe_no_panic by blast
qed

text \<open>At the inputs above: a posted token does not help a caller without auth token.\<close>

theorem nil_auth_token_witness:
  "Subscribe_Handle (server acc_1 cus_1) post_token None w0 = (Return (Some InvalidAuthToken), w0)
   \<and> Unsubscribe_Handle (server acc_1 cus_1) post_empty None w0 = (NilPanic, w0)
   \<and> fst (Unsubscribe_Handle (server acc_1 cus_1) post_empty (Some alice) w0) \<noteq> NilPanic"
  using nil_auth_token [of "server acc_1 cus_1" post_token w0]
    nil_auth_token [of "server acc_1 cus_1" post_empty w0]
  by blast

subsection \<open>Provider errors in Subscribe\<close>

lemma wrapCardError_card:
  "is_card_error e \<Longrightarrow> \<exists>se. e = Stripe_Error se \<and> wrapCardError e = StripeError se"
  by (cases e) (simp_all add: wrapCardError_def is_card_error_def)

lemma wrapCardError_other: "\<not> is_card_error e \<Longrightarrow> wrapCardError e = e"
  by (cases e) (simp_all add: wrapCardError_def is_card_error_def)

lemma wrapCardError_kind:
  "\<not> is_StripeError e \<Longrightarrow> is_StripeError (wrapCardError e) = is_card_error e"
  by (cases e) (simp_all add: wrapCardError_def is_card_error_def is_StripeError_def)

lemma card_declined_kind:
  "is_card_error card_declined" "\<not> is_StripeError card_declined"
  "wrapCardError card_declined =
     StripeError \<lparr>Type = ErrorTypeCard, Msg = ''Your card was declined.''\<rparr>"
  by (simp_all add: is_card_error_def is_StripeError_def wrapCardError_def card_declined_def)

lemma api_down_kind:
  "\<not> is_card_error api_down" "\<not> is_StripeError api_down" "wrapCardError api_down = api_down"
  by (simp_all add: is_card_error_def is_StripeError_def wrapCardError_def api_down_def
        ErrorTypeCard_def)

lemma Subscribe_attach_error:
  assumes "PostFormValue r ''stripeToken'' \<noteq> ''''"
    and "AccountFromEmail h (pc_Email (Account tok)) True = Inr acc"
    and "SetPaymentSource h acc (PostFormValue r ''stripeToken'') = Inl e"
  shows "Subscribe_Handle h r (Some tok) w =
           (Return (Some (wrapCardError e)),
            invoke (Call_SetPaymentSource acc (PostFormValue r ''stripeToken''))
              (invoke (Call_AccountFromEmail (pc_Email (Account tok)) True) w))"
  using assms by (simp add: Subscribe_Handle_def Let_def)

lemma Subscribe_to_ensure:
  assumes "PostFormValue r ''stripeToken'' \<noteq> ''''"
    and "AccountFromEmail h (pc_Email (Account tok)) True = Inr acc"
    and "SetPaymentSource h acc (PostFormValue r ''stripeToken'') = Inr acc1"
  shows "Subscribe_Handle h r (Some tok) w =
           Subscribe_ensure h r (\<not> HasActiveSubscription h acc) acc1
             (invoke (Call_SetPaymentSource acc (PostFormValue r ''stripeToken''))
                (invoke (Call_AccountFromEmail (pc_Email (Account tok)) True) w))"
  using assms by (simp add: Subscribe_Handle_def Let_def)

lemma Subscribe_ensure_error:
  assumes "EnsureSubscription h acc1 = Inl e"
  shows "Subscribe_ensure h r n acc1 w =
           (Return (Some e), invoke (Call_EnsureSubscription acc1) w)"
  using assms by (simp add: Subscribe_ensure_def)

lemma Subscribe_update_error:
  assumes "EnsureSubscription h acc1 = Inr acc2" and "Subscription acc2 = Some s"
    and "sub_Update h (Sub_ID s) = Inl e"
  shows "Subscribe_ensure h r n acc1 w =
           (Return (Some (wrapCardError e)),
            invoke (Call_sub_Update (Sub_ID s) True) (invoke (Call_EnsureSubscription acc1) w))"
  using assms by (simp add: Subscribe_ensure_def Let_def)

lemma Subscribe_attach_error_frame:
  assumes "PostFormValue r ''stripeToken'' \<noteq> ''''"
    and "AccountFromEmail h (pc_Email (Account tok)) True = Inr acc"
    and "SetPaymentSource h acc (PostFormValue r ''stripeToken'') = Inl e"
    and "Subscribe_Handle h r (Some tok) w = (res, w')"
  shows "res = Return (Some (wrapCardError e)) \<and> Storage_Puts w' = Storage_Puts w
         \<and> store w' = store w"
  using assms(4) unfolding Subscribe_attach_error [OF assms(1-3)]
  by (auto simp: Storage_Puts_invoke store_invoke)

lemma Subscribe_ensure_error_frame:
  assumes "PostFormValue r ''stripeToken'' \<noteq> ''''"
    and "AccountFromEmail h (pc_Email (Account tok)) True = Inr acc"
    and "SetPaymentSource h acc (PostFormValue r ''stripeToken'') = Inr acc1"
    and "EnsureSubscription h acc1 = Inl e"
    and "Subscribe_Handle h r (Some tok) w = (res, w')"
  shows "res = Return (Some e) \<and> Storage_Puts w' = Storage_Puts w \<and> store w' = store w"
  using assms(5)
  unfolding Subscribe_to_ensure [OF assms(1-3)] Subscribe_ensure_error [OF assms(4)]
  by (auto simp: Storage_Puts_invoke store_invoke)

lemma Subscribe_update_error_frame:
  assumes "PostFormValue r ''stripeToken'' \<noteq> ''''"
    and "AccountFromEmail h (pc_Email (Account tok)) True = Inr acc"
    and "SetPaymentSource h acc (PostFormValue r ''stripeToken'') = Inr acc1"
    and "EnsureSubscription h acc1 = Inr acc2" and "Subscription acc2 = Some s"
    and "sub_Update h (Sub_ID s) = Inl e"
    and "Subscribe_Handle h r (Some tok) w = (res, w')"
  shows "res = Return (Some (wrapCardError e)) \<and> Storage_Puts w' = Storage_Puts w
         \<and> store w' = store w"
  using assms(7)
  unfolding Subscribe_to_ensure [OF assms(1-3)] Subscribe_update_error [OF assms(4-6)]
  by (auto simp: Storage_Puts_invoke store_invoke)

text \<open>
  C3, as stated, fails in what is returned: when attaching the payment source fails with
  a card error of the provider, the handler does not return that error but the
  \<^verbatim>\<open>StripeError\<close> that \<^verbatim>\<open>wrapCardError\<close> puts around it, a value of another type.
\<close>

theorem Subscribe_card_error_returned_wrapped:
  "SetPaymentSource (attach_fails card_declined (server acc_1 cus_1)) acc_1
       (PostFormValue post_token ''stripeToken'') = Inl card_declined
   \<and> fst (Subscribe_Handle (attach_fails card_declined (server acc_1 cus_1))
            post_token (Some alice) w0)
       = Return (Some (StripeError \<lparr>Type = ErrorTypeCard, Msg = ''Your card was declined.''\<rparr>))
   \<and> fst (Subscribe_Handle (attach_fails card_declined (server acc_1 cus_1))
            post_token (Some alice) w0)
       \<noteq> Return (Some card_declined)"
  by (simp add: Subscribe_Handle_def wrapCardError_def attach_fails_def server_def
        post_token_def alice_def card_declined_def Let_def)

text \<open>
  C3, amended. A run of \<^verbatim>\<open>Subscribe.Handle\<close> that has resolved the Account and in which a
  provider call fails returns before any call of \<^verbatim>\<open>Storage.Put\<close>, and the store is as
  it was. What it returns, for the three calls in order: attaching the payment source,
  \<open>wrapCardError\<close> of the error; ensuring the subscription, the error as it is; ending
  the trial, \<open>wrapCardError\<close> of the error. \<open>wrapCardError\<close> of a card error of the
  provider is the \<^verbatim>\<open>StripeError\<close> around it, and of any other error the error itself.
\<close>

theorem Subscribe_provider_error_before_Put:
  assumes token: "PostFormValue r ''stripeToken'' \<noteq> ''''"
    and acc: "AccountFromEmail h (pc_Email (Account tok)) True = Inr acc"
    and run: "Subscribe_Handle h r (Some tok) w = (res, w')"
  shows "(SetPaymentSource h acc (PostFormValue r ''stripeToken'') = Inl e \<longrightarrow>
            res = Return (Some (wrapCardError e))
            \<and> Storage_Puts w' = Storage_Puts w \<and> store w' = store w)
    \<and> (\<forall>acc1. SetPaymentSource h acc (PostFormValue r ''stripeToken'') = Inr acc1
            \<and> EnsureSubscription h acc1 = Inl e \<longrightarrow>
            res = Return (Some e)
            \<and> Storage_Puts w' = Storage_Puts w \<and> store w' = store w)
    \<and> (\<forall>acc1 acc2 s. SetPaymentSource h acc (PostFormValue r ''stripeToken'') = Inr acc1
            \<and> EnsureSubscription h acc1 = Inr acc2 \<and> Subscription acc2 = Some s
            \<and> sub_Update h (Sub_ID s) = Inl e \<longrightarrow>
            res = Return (Some (wrapCardError e))
            \<and> Storage_Puts w' = Storage_Puts w \<and> store w' = store w)
    \<and> (is_card_error e \<longrightarrow> (\<exists>se. e = Stripe_Error se \<and> wrapCardError e = StripeError se))
    \<and> (\<not> is_card_error e \<longrightarrow> wrapCardError e = e)"
proof -
  have "(SetPaymentSource h acc (PostFormValue r ''stripeToken'') = Inl e \<longrightarrow>
            res = Return (Some (wrapCardError e))
            \<and> Storage_Puts w' = Storage_Puts w \<and> store w' = store w)
    \<and> (\<forall>acc1. SetPaymentSource h acc (PostFormValue r ''stripeToken'') = Inr acc1
            \<and> EnsureSubscription h acc1 = Inl e \<longrightarrow>
            res = Return (Some e)
            \<and> Storage_Puts w' = Storage_Puts w \<and> store w' = store w)
    \<and> (\<forall>acc1 acc2 s. SetPaymentSource h acc (PostFormValue r ''stripeToken'') = Inr acc1
            \<and> EnsureSubscription h acc1 = Inr acc2 \<and> Subscription acc2 = Some s
            \<and> sub_Update h (Sub_ID s) = Inl e \<longrightarrow>
            res = Return (Some (wrapCardError e))
            \<and> Storage_Puts w' = Storage_Puts w \<and> store w' = store w)"
    using Subscribe_attach_error_frame [OF token acc _ run]
      Subscribe_ensure_error_frame [OF token acc _ _ run]
      Subscribe_update_error_frame [OF token acc _ _ _ _ run]
    by blast
  moreover
  have "is_card_error e \<longrightarrow> (\<exists>se. e = Stripe_Error se \<and> wrapCardError e = StripeError se)"
    using wrapCardError_card by blast
  moreover have "\<not> is_card_error e \<longrightarrow> wrapCardError e = e"
    using wrapCardError_other by blast
  ultimately show ?thesis by blast
qed

text \<open>A declined card on attaching, and the provider's API failing in each of the other
  two calls: each time the error comes back, nothing was put and the store is empty still.\<close>

theorem Subscribe_provider_error_before_Put_witness:
  "fst (Subscribe_Handle (attach_fails card_declined (server acc_1 cus_1))
          post_token (Some alice) w0)
     = Return (Some (StripeError \<lparr>Type = ErrorTypeCard, Msg = ''Your card was declined.''\<rparr>))
   \<and> Storage_Puts (snd (Subscribe_Handle (attach_fails card_declined (server acc_1 cus_1))
          post_token (Some alice) w0)) = []
   \<and> store (snd (Subscribe_Handle (attach_fails card_declined (server acc_1 cus_1))
          post_token (Some alice) w0)) ''a@b.com'' = None
   \<and> fst (Subscribe_Handle (ensure_fails api_down (server acc_1 cus_1))
          post_token (Some alice) w0) = Return (Some api_down)
   \<and> Storage_Puts (snd (Subscribe_Handle (ensure_fails api_down (server acc_1 cus_1))
          post_token (Some alice) w0)) = []
   \<and> store (snd (Subscribe_Handle (ensure_fails api_down (server acc_1 cus_1))
          post_token (Some alice) w0)) ''a@b.com'' = None
   \<and> fst (Subscribe_Handle (update_fails api_down (server acc_1 cus_1))
          post_token (Some alice) w0) = Return (Some api_down)
   \<and> Storage_Puts (snd (Subscribe_Handle (update_fails api_down (server acc_1 cus_1))
          post_token (Some alice) w0)) = []
   \<and> store (snd (Subscribe_Handle (update_fails api_down (server acc_1 cus_1))
          post_token (Some alice) w0)) ''a@b.com'' = None"
proof -
  let ?h1 = "attach_fails card_declined (server acc_1 cus_1)"
  let ?h2 = "ensure_fails api_down (server acc_1 cus_1)"
  let ?h3 = "update_fails api_down (server acc_1 cus_1)"
  have t: "PostFormValue post_token ''stripeToken'' \<noteq> ''''"
    by (simp add: post_token_stripeToken)
  have a: "AccountFromEmail ?h1 (pc_Email (Account alice)) True = Inr acc_1"
    "AccountFromEmail ?h2 (pc_Email (Account alice)) True = Inr acc_1"
    "AccountFromEmail ?h3 (pc_Email (Account alice)) True = Inr acc_1"
    by (simp_all add: server_def attach_fails_def ensure_fails_def update_fails_def)
  have f1: "SetPaymentSource ?h1 acc_1 (PostFormValue post_token ''stripeToken'')
              = Inl card_declined"
    by (simp add: server_def attach_fails_def)
  have f2: "SetPaymentSource ?h2 acc_1 (PostFormValue post_token ''stripeToken'') = Inr acc_1
            \<and> EnsureSubscription ?h2 acc_1 = Inl api_down"
    by (simp add: server_def ensure_fails_def)
  have f3: "SetPaymentSource ?h3 acc_1 (PostFormValue post_token ''stripeToken'') = Inr acc_1
            \<and> EnsureSubscription ?h3 acc_1 = Inr acc_1 \<and> Subscription acc_1 = Some sub_trialing
            \<and> sub_Update ?h3 (Sub_ID sub_trialing) = Inl api_down"
    by (simp add: server_def update_fails_def Subscription_acc_1)
  have "fst (Subscribe_Handle ?h1 post_token (Some alice) w0)
          = Return (Some (wrapCardError card_declined))
        \<and> Storage_Puts (snd (Subscribe_Handle ?h1 post_token (Some alice) w0)) = Storage_Puts w0
        \<and> store (snd (Subscribe_Handle ?h1 post_token (Some alice) w0)) = store w0"
    using f1 Subscribe_provider_error_before_Put
      [where w = w0 and e = card_declined, OF t a(1) prod.collapse [symmetric]]
    by blast
  moreover
  have "fst (Subscribe_Handle ?h2 post_token (Some alice) w0) = Return (Some api_down)
        \<and> Storage_Puts (snd (Subscribe_Handle ?h2 post_token (Some alice) w0)) = Storage_Puts w0
        \<and> store (snd (Subscribe_Handle ?h2 post_token (Some alice) w0)) = store w0"
    using f2 Subscribe_provider_error_before_Put
      [where w = w0 and e = api_down, OF t a(2) prod.collapse [symmetric]]
    by blast
  moreover
  have "fst (Subscribe_Handle ?h3 post_token (Some alice) w0)
          = Return (Some (wrapCardError api_down))
        \<and> Storage_Puts (snd (Subscribe_Handle ?h3 post_token (Some alice) w0)) = Storage_Puts w0
        \<and> store (snd (Subscribe_Handle ?h3 post_token (Some alice) w0)) = store w0"
    using f3 Subscribe_provider_error_before_Put
      [where w = w0 and e = api_down, OF t a(3) prod.collapse [symmetric]]
    by blast
  ultimately show ?thesis
    by (simp add: observations_w0 card_declined_kind api_down_kind)
qed

text \<open>
  C5. In a run of \<^verbatim>\<open>Subscribe.Handle\<close> in which attaching the payment source or ending
  the trial fails with \<open>e\<close>, the handler returns \<open>wrapCardError e\<close>: for a card error of
  the provider that is the \<^verbatim>\<open>StripeError\<close> around it, for any other error it is \<open>e\<close>
  unchanged. The caller can tell the two apart: unless \<open>e\<close> was a \<^verbatim>\<open>StripeError\<close>
  already, what is returned is a \<^verbatim>\<open>StripeError\<close> exactly when \<open>e\<close> is a card error.
\<close>

theorem Subscribe_card_error_kind:
  assumes token: "PostFormValue r ''stripeToken'' \<noteq> ''''"
    and acc: "AccountFromEmail h (pc_Email (Account tok)) True = Inr acc"
    and fails: "SetPaymentSource h acc (PostFormValue r ''stripeToken'') = Inl e
      \<or> (\<exists>acc1 acc2 s. SetPaymentSource h acc (PostFormValue r ''stripeToken'') = Inr acc1
            \<and> EnsureSubscription h acc1 = Inr acc2 \<and> Subscription acc2 = Some s
            \<and> sub_Update h (Sub_ID s) = Inl e)"
  shows "fst (Subscribe_Handle h r (Some tok) w) = Return (Some (wrapCardError e))
    \<and> (is_card_error e \<longrightarrow> (\<exists>se. e = Stripe_Error se \<and> wrapCardError e = StripeError se))
    \<and> (\<not> is_card_error e \<longrightarrow> wrapCardError e = e)
    \<and> (\<not> is_StripeError e \<longrightarrow> is_StripeError (wrapCardError e) = is_card_error e)"
proof -
  have "fst (Subscribe_Handle h r (Some tok) w) = Return (Some (wrapCardError e))"
    using fails
  proof
    assume "SetPaymentSource h acc (PostFormValue r ''stripeToken'') = Inl e"
    then show ?thesis by (simp add: Subscribe_attach_error [OF token acc])
  next
    assume "\<exists>acc1 acc2 s. SetPaymentSource h acc (PostFormValue r ''stripeToken'') = Inr acc1
            \<and> EnsureSubscription h acc1 = Inr acc2 \<and> Subscription acc2 = Some s
            \<and> sub_Update h (Sub_ID s) = Inl e"
    then obtain acc1 acc2 s where
      "SetPaymentSource h acc (PostFormValue r ''stripeToken'') = Inr acc1"
      "EnsureSubscription h acc1 = Inr acc2" "Subscription acc2 = Some s"
      "sub_Update h (Sub_ID s) = Inl e" by blast
    then show ?thesis
      by (simp add: Subscribe_to_ensure [OF token acc] Subscribe_update_error)
  qed
  then show ?thesis
    using wrapCardError_card wrapCardError_other wrapCardError_kind by blast
qed

text \<open>A card declined when the trial is ended comes back as a \<^verbatim>\<open>StripeError\<close>; an API
  failure when the source is attached comes back as it is, and is no \<^verbatim>\<open>StripeError\<close>.\<close>

theorem Subscribe_card_error_kind_witness:
  "fst (Subscribe_Handle (update_fails card_declined (server acc_1 cus_1))
          post_token (Some alice) w0)
     = Return (Some (StripeError \<lparr>Type = ErrorTypeCard, Msg = ''Your card was declined.''\<rparr>))
   \<and> fst (Subscribe_Handle (attach_fails api_down (server acc_1 cus_1))
          post_token (Some alice) w0)
     = Return (Some api_down)
   \<and> is_card_error card_declined \<and> \<not> is_card_error api_down
   \<and> is_StripeError (wrapCardError card_declined) \<and> \<not> is_StripeError (wrapCardError api_down)"
proof -
  let ?h1 = "update_fails card_declined (server acc_1 cus_1)"
  let ?h2 = "attach_fails api_down (server acc_1 cus_1)"
  have t: "PostFormValue post_token ''stripeToken'' \<noteq> ''''"
    by (simp add: post_token_stripeToken)
  have a1: "AccountFromEmail ?h1 (pc_Email (Account alice)) True = Inr acc_1"
    and a2: "AccountFromEmail ?h2 (pc_Email (Account alice)) True = Inr acc_1"
    by (simp_all add: server_def update_fails_def attach_fails_def)
  have f1: "SetPaymentSource ?h1 acc_1 (PostFormValue post_token ''stripeToken'') = Inl card_declined
      \<or> (\<exists>acc1 acc2 s. SetPaymentSource ?h1 acc_1 (PostFormValue post_token ''stripeToken'') = Inr acc1
            \<and> EnsureSubscription ?h1 acc1 = Inr acc2 \<and> Subscription acc2 = Some s
            \<and> sub_Update ?h1 (Sub_ID s) = Inl card_declined)"
    by (simp add: server_def update_fails_def Subscription_acc_1)
  have f2: "SetPaymentSource ?h2 acc_1 (PostFormValue post_token ''stripeToken'') = Inl api_down
      \<or> (\<exists>acc1 acc2 s. SetPaymentSource ?h2 acc_1 (PostFormValue post_token ''stripeToken'') = Inr acc1
            \<and> EnsureSubscription ?h2 acc1 = Inr acc2 \<and> Subscription acc2 = Some s
            \<and> sub_Update ?h2 (Sub_ID s) = Inl api_down)"
    by (simp add: server_def attach_fails_def)
  from Subscribe_card_error_kind [OF t a1 f1, of w0] Subscribe_card_error_kind [OF t a2 f2, of w0]
  show ?thesis
    by (simp add: card_declined_kind api_down_kind)
qed

subsection \<open>The outcome of Subscribe\<close>

lemma Subscribe_respond_ok:
  assumes "Subscribe_respond h r n acc s w = (Return None, w')"
  shows "Redirects w' = Redirects w @
           [''/dashboard/?action='' @ (if n then ''subscribed'' else ''payment-updated'')]
     \<and> Tracked w' = Tracked w @ [if n then ''Buy Subscription'' else ''Update Payment Method'']"
  using assms
  by (auto simp: Subscribe_respond_def Let_def Redirects_invoke Tracked_invoke
           split: option.splits)

lemma Subscribe_ensure_ok:
  assumes "Subscribe_ensure h r n acc1 w = (Return None, w')"
  shows "Redirects w' = Redirects w @
           [''/dashboard/?action='' @ (if n then ''subscribed'' else ''payment-updated'')]
     \<and> Tracked w' = Tracked w @ [if n then ''Buy Subscription'' else ''Update Payment Method'']"
proof -
  from assms obtain acc2 and s :: sub and s' w3 where
    put: "Storage_Put h (assign_Subscription acc2 s')
            (invoke (Call_sub_Update (Sub_ID s) True) (invoke (Call_EnsureSubscription acc1) w))
          = (None, w3)"
    and resp: "Subscribe_respond h r n (assign_Subscription acc2 s') s' w3 = (Return None, w')"
    by (auto simp: Subscribe_ensure_def Let_def split: sum.splits option.splits prod.splits)
  have "Redirects w3 = Redirects w" "Tracked w3 = Tracked w"
    using Redirects_Storage_Put [OF put] Tracked_Storage_Put [OF put]
    by (simp_all add: Redirects_invoke Tracked_invoke)
  with Subscribe_respond_ok [OF resp] show ?thesis by simp
qed

text \<open>
  C4. A run of \<^verbatim>\<open>Subscribe.Handle\<close> that returns \<^verbatim>\<open>nil\<close> had an auth token and resolved
  an Account; it redirects once and dispatches one analytics event, and both are fixed by
  \<^verbatim>\<open>HasActiveSubscription\<close> of the Account as \<^verbatim>\<open>AccountFromEmail\<close> returned it, before
  the payment source is attached, the
  subscription ensured or the trial ended: without an active subscription the event is
  ``Buy Subscription'' and the action ``subscribed''; with one, ``Update Payment Method''
  and ``payment-updated''.
\<close>

theorem Subscribe_outcome_label:
  assumes run: "Subscribe_Handle h r a w = (Return None, w')"
  shows "\<exists>tok acc. a = Some tok
     \<and> AccountFromEmail h (pc_Email (Account tok)) True = Inr acc
     \<and> Redirects w' = Redirects w @
           [''/dashboard/?action='' @
              (if HasActiveSubscription h acc then ''payment-updated'' else ''subscribed'')]
     \<and> Tracked w' = Tracked w @
           [if HasActiveSubscription h acc then ''Update Payment Method''
            else ''Buy Subscription'']"
proof -
  from run obtain tok where a: "a = Some tok"
    by (cases a) (simp_all add: Subscribe_Handle_def)
  from run a obtain acc where acc: "AccountFromEmail h (pc_Email (Account tok)) True = Inr acc"
    by (cases "AccountFromEmail h (pc_Email (Account tok)) True")
       (simp_all add: Subscribe_Handle_def Let_def split: if_splits)
  from run a acc obtain acc1 where
    "Subscribe_ensure h r (\<not> HasActiveSubscription h acc) acc1
       (invoke (Call_SetPaymentSource acc (PostFormValue r ''stripeToken''))
          (invoke (Call_AccountFromEmail (pc_Email (Account tok)) True) w)) = (Return None, w')"
    by (auto simp: Subscribe_Handle_def Let_def split: if_splits sum.splits)
  from Subscribe_ensure_ok [OF this] a acc show ?thesis
    by (simp add: Redirects_invoke Tracked_invoke)
qed

text \<open>The Account on trial has no active subscription before the run and an active one
  in the store after it: the run is labelled a new subscription. The Account that has an
  active subscription already is labelled a payment update.\<close>

theorem Subscribe_outcome_label_witness:
  "fst (Subscribe_Handle (server acc_1 cus_1) post_token (Some alice) w0) = Return None
   \<and> \<not> HasActiveSubscription (server acc_1 cus_1) acc_1
   \<and> store (snd (Subscribe_Handle (server acc_1 cus_1) post_token (Some alice) w0)) ''a@b.com''
       = Some (assign_Subscription acc_1 sub_active)
   \<and> HasActiveSubscription (server acc_1 cus_1) (assign_Subscription acc_1 sub_active)
   \<and> Redirects (snd (Subscribe_Handle (server acc_1 cus_1) post_token (Some alice) w0))
       = [''/dashboard/?action=subscribed'']
   \<and> Tracked (snd (Subscribe_Handle (server acc_1 cus_1) post_token (Some alice) w0))
       = [''Buy Subscription'']
   \<and> fst (Subscribe_Handle (server acc_paid cus_1_new) post_token (Some alice) w0) = Return None
   \<and> HasActiveSubscription (server acc_paid cus_1_new) acc_paid
   \<and> Redirects (snd (Subscribe_Handle (server acc_paid cus_1_new) post_token (Some alice) w0))
       = [''/dashboard/?action=payment-updated'']
   \<and> Tracked (snd (Subscribe_Handle (server acc_paid cus_1_new) post_token (Some alice) w0))
       = [''Update Payment Method'']"
proof -
  let ?h1 = "server acc_1 cus_1" and ?h2 = "server acc_paid cus_1_new"
  have r1: "fst (Subscribe_Handle ?h1 post_token (Some alice) w0) = Return None"
    and r2: "fst (Subscribe_Handle ?h2 post_token (Some alice) w0) = Return None"
    by (simp_all add: handlers inputs)
  have a1: "AccountFromEmail ?h1 (pc_Email (Account alice)) True = Inr acc_1"
    and a2: "AccountFromEmail ?h2 (pc_Email (Account alice)) True = Inr acc_paid"
    by (simp_all add: server_def)
  have n1: "\<not> HasActiveSubscription ?h1 acc_1" and n2: "HasActiveSubscription ?h2 acc_paid"
    and n3: "HasActiveSubscription ?h1 (assign_Subscription acc_1 sub_active)"
    by (simp_all add: Subscription_def assign_Subscription_def inputs)
  have s1: "store (snd (Subscribe_Handle ?h1 post_token (Some alice) w0)) ''a@b.com''
              = Some (assign_Subscription acc_1 sub_active)"
    by (simp add: handlers inputs)
  have run1: "Subscribe_Handle ?h1 post_token (Some alice) w0
                = (Return None, snd (Subscribe_Handle ?h1 post_token (Some alice) w0))"
    using r1 by (metis prod.collapse)
  have run2: "Subscribe_Handle ?h2 post_token (Some alice) w0
                = (Return None, snd (Subscribe_Handle ?h2 post_token (Some alice) w0))"
    using r2 by (metis prod.collapse)
  show ?thesis
    using Subscribe_outcome_label [OF run1] Subscribe_outcome_label [OF run2]
      a1 a2 r1 r2 n1 n2 n3 s1
    by (auto simp: observations_w0)
qed

subsection \<open>Malformed requests\<close>

text \<open>
  C6. When the Account that \<^verbatim>\<open>Unsubscribe.Handle\<close> resolves has no subscription, the
  handler returns the bad-request error; its only call is the \<^verbatim>\<open>AccountFromEmail\<close> that
  resolved the Account, so there is no provider call, no \<^verbatim>\<open>Storage.Put\<close>, and the store
  is as it was.
\<close>

theorem Unsubscribe_without_subscription:
  assumes acc: "AccountFromEmail h (pc_Email (Account tok)) True = Inr acc"
    and none: "Subscription acc = None"
  shows "fst (Unsubscribe_Handle h r (Some tok) w) =
           Return (Some (BadRequest ''This account does not have an active subscription''))
     \<and> calls (snd (Unsubscribe_Handle h r (Some tok) w)) =
           calls w @ [Call_AccountFromEmail (pc_Email (Account tok)) True]
     \<and> provider_calls (snd (Unsubscribe_Handle h r (Some tok) w)) = provider_calls w
     \<and> Storage_Puts (snd (Unsubscribe_Handle h r (Some tok) w)) = Storage_Puts w
     \<and> store (snd (Unsubscribe_Handle h r (Some tok) w)) = store w"
  using assms
  by (simp add: Unsubscribe_Handle_def Let_def calls_invoke provider_calls_invoke
        Storage_Puts_invoke store_invoke)

text \<open>The Account without customer has no subscription to cancel.\<close>

theorem Unsubscribe_without_subscription_witness:
  "Subscription acc_fresh = None
   \<and> fst (Unsubscribe_Handle (server acc_fresh cus_1) post_empty (Some alice) w0)
       = Return (Some (BadRequest ''This account does not have an active subscription''))
   \<and> calls (snd (Unsubscribe_Handle (server acc_fresh cus_1) post_empty (Some alice) w0))
       = [Call_AccountFromEmail ''a@b.com'' True]
   \<and> provider_calls (snd (Unsubscribe_Handle (server acc_fresh cus_1) post_empty (Some alice) w0))
       = []
   \<and> Storage_Puts (snd (Unsubscribe_Handle (server acc_fresh cus_1) post_empty (Some alice) w0))
       = []
   \<and> store (snd (Unsubscribe_Handle (server acc_fresh cus_1) post_empty (Some alice) w0))
        ''a@b.com'' = None"
proof -
  have a: "AccountFromEmail (server acc_fresh cus_1) (pc_Email (Account alice)) True
             = Inr acc_fresh"
    by (simp add: server_def)
  have n: "Subscription acc_fresh = None"
    by (simp add: Subscription_def acc_fresh_def)
  show ?thesis
    using Unsubscribe_without_subscription [OF a n, of post_empty w0] n
    by (simp add: observations_w0 alice_def)
qed

text \<open>
  C7. For a request whose token is empty from a caller with an auth token (an
  authenticated caller, the precondition the spec states for Subscribe),
  \<^verbatim>\<open>Subscribe.Handle\<close> returns the bad-request error and leaves the world untouched: no
  call to the provider or the store was made. Without auth token the answer of lines
  95-97 comes first, and the world is untouched as well.
\<close>

theorem Subscribe_without_token:
  assumes "PostFormValue r ''stripeToken'' = ''''"
  shows "Subscribe_Handle h r (Some tok) w =
           (Return (Some (BadRequest ''No stripe token provided'')), w)
     \<and> Subscribe_Handle h r None w = (Return (Some InvalidAuthToken), w)"
  using assms by (simp add: Subscribe_Handle_def)

theorem Subscribe_without_token_witness:
  "PostFormValue post_empty ''stripeToken'' = ''''
   \<and> Subscribe_Handle (server acc_1 cus_1) post_empty (Some alice) w0 =
           (Return (Some (BadRequest ''No stripe token provided'')), w0)"
  using Subscribe_without_token [OF post_empty_stripeToken] post_empty_stripeToken
  by simp

subsection \<open>A successful Unsubscribe\<close>

lemma Subscription_Some:
  "Subscription acc = Some s \<Longrightarrow>
   \<exists>c rest. Account_Customer acc = Some c \<and> Customer_Subs c = s # rest"
  by (auto simp: Subscription_def split: option.splits list.splits)

lemma assign_Subscription_head:
  "Account_Customer acc = Some c \<Longrightarrow> Customer_Subs c = s # rest \<Longrightarrow>
   assign_Subscription acc s' = acc\<lparr>Account_Customer := Some (c\<lparr>Customer_Subs := s' # rest\<rparr>)\<rparr>"
  by (simp add: assign_Subscription_def)

text \<open>
  C8. In a run of \<^verbatim>\<open>Unsubscribe.Handle\<close> that returns \<^verbatim>\<open>nil\<close>, the Account \<open>acc\<close>
  resolved through the auth token had a customer \<open>c\<close> whose first subscription was \<open>s\<close>,
  and the provider answered the cancellation of \<open>s\<close> with \<open>s'\<close>. The one Account handed
  to \<^verbatim>\<open>Storage.Put\<close>, which the store then holds under the Account's email, is \<open>acc\<close>
  with \<open>s'\<close> in the place of \<open>s\<close> and nothing else changed: same email and tracking ID,
  same customer but for that subscription, the other subscriptions kept. Its
  subscription reference is not \<^verbatim>\<open>nil\<close>: it is \<open>s'\<close>.
\<close>

theorem Unsubscribe_keeps_canceled_subscription:
  assumes run: "Unsubscribe_Handle h r a w = (Return None, w')"
  shows "\<exists>tok acc c s rest s'. a = Some tok
           \<and> AccountFromEmail h (pc_Email (Account tok)) True = Inr acc
           \<and> Account_Customer acc = Some c \<and> Customer_Subs c = s # rest
           \<and> Subscription acc = Some s \<and> sub_Cancel h (Sub_ID s) = Inr s'
           \<and> assign_Subscription acc s'
               = acc\<lparr>Account_Customer := Some (c\<lparr>Customer_Subs := s' # rest\<rparr>)\<rparr>
           \<and> Subscription (acc\<lparr>Account_Customer := Some (c\<lparr>Customer_Subs := s' # rest\<rparr>)\<rparr>)
               = Some s'
           \<and> Storage_Puts w' = Storage_Puts w
               @ [acc\<lparr>Account_Customer := Some (c\<lparr>Customer_Subs := s' # rest\<rparr>)\<rparr>]
           \<and> store w' = (store w)(Account_Email acc \<mapsto>
                 acc\<lparr>Account_Customer := Some (c\<lparr>Customer_Subs := s' # rest\<rparr>)\<rparr>)"
proof -
  from run obtain tok where a: "a = Some tok"
    by (cases a) (simp_all add: Unsubscribe_Handle_def)
  from run a obtain acc where acc: "AccountFromEmail h (pc_Email (Account tok)) True = Inr acc"
    by (cases "AccountFromEmail h (pc_Email (Account tok)) True")
       (simp_all add: Unsubscribe_Handle_def)
  from run a acc obtain s s' where s: "Subscription acc = Some s"
    and c: "sub_Cancel h (Sub_ID s) = Inr s'"
    and p: "Storage_Put_error h (assign_Subscription acc s') = None"
    by (auto simp: Unsubscribe_Handle_def Let_def Storage_Put_def
             split: sum.splits option.splits prod.splits)
  from Subscription_Some [OF s] obtain cu rest where
    cu: "Account_Customer acc = Some cu" "Customer_Subs cu = s # rest"
    by blast
  let ?acc' = "acc\<lparr>Account_Customer := Some (cu\<lparr>Customer_Subs := s' # rest\<rparr>)\<rparr>"
  have eq: "assign_Subscription acc s' = ?acc'"
    by (rule assign_Subscription_head [OF cu])
  from run a acc s c p have "Storage_Puts w' = Storage_Puts w @ [assign_Subscription acc s']"
    and "store w' = (store w)(Account_Email acc \<mapsto> assign_Subscription acc s')"
    by (auto simp: Unsubscribe_Handle_def Let_def Storage_Put_def Storage_Puts_def invoke_def
          Account_Email_assign)
  then have puts: "Storage_Puts w' = Storage_Puts w @ [?acc']"
    and st: "store w' = (store w)(Account_Email acc \<mapsto> ?acc')"
    by (simp_all only: eq)
  have sub': "Subscription ?acc' = Some s'"
    using Subscription_assign [OF s, of s'] by (simp only: eq)
  from a acc cu s c eq sub' puts st show ?thesis by blast
qed

text \<open>The Account on trial, unsubscribed: the store holds it with the canceled
  subscription attached.\<close>

theorem Unsubscribe_keeps_canceled_subscription_witness:
  "fst (Unsubscribe_Handle (server acc_1 cus_1) post_empty (Some alice) w0) = Return None
   \<and> Storage_Puts (snd (Unsubscribe_Handle (server acc_1 cus_1) post_empty (Some alice) w0))
       = [\<lparr>Account_Email = ''a@b.com'', Account_TrackingID = ''t1'',
           Account_Customer = Some \<lparr>Customer_ID = ''cus_1'', Customer_Email = ''a@b.com'',
                                      Customer_Subs = [sub_canceled]\<rparr>\<rparr>]
   \<and> store (snd (Unsubscribe_Handle (server acc_1 cus_1) post_empty (Some alice) w0)) ''a@b.com''
       = Some \<lparr>Account_Email = ''a@b.com'', Account_TrackingID = ''t1'',
           Account_Customer = Some \<lparr>Customer_ID = ''cus_1'', Customer_Email = ''a@b.com'',
                                      Customer_Subs = [sub_canceled]\<rparr>\<rparr>
   \<and> Subscription \<lparr>Account_Email = ''a@b.com'', Account_TrackingID = ''t1'',
           Account_Customer = Some \<lparr>Customer_ID = ''cus_1'', Customer_Email = ''a@b.com'',
                                      Customer_Subs = [sub_canceled]\<rparr>\<rparr>
       = Some sub_canceled"
proof -
  let ?h = "server acc_1 cus_1"
  have r: "fst (Unsubscribe_Handle ?h post_empty (Some alice) w0) = Return None"
    by (simp add: handlers inputs)
  then have run: "Unsubscribe_Handle ?h post_empty (Some alice) w0
                = (Return None, snd (Unsubscribe_Handle ?h post_empty (Some alice) w0))"
    by (metis prod.collapse)
  have a: "AccountFromEmail ?h (pc_Email (Account alice)) True = Inr acc_1"
    by (simp add: server_def)
  have c: "sub_Cancel ?h x = Inr sub_canceled" for x
    by (simp add: server_def)
  have e: "Account_Email acc_1 = ''a@b.com''" "Account_Customer acc_1 = Some cus_1"
    "Customer_Subs cus_1 = [sub_trialing]"
    by (simp_all add: acc_1_def cus_1_def)
  have v: "acc_1\<lparr>Account_Customer := Some (cus_1\<lparr>Customer_Subs := [sub_canceled]\<rparr>)\<rparr>
      = \<lparr>Account_Email = ''a@b.com'', Account_TrackingID = ''t1'',
           Account_Customer = Some \<lparr>Customer_ID = ''cus_1'', Customer_Email = ''a@b.com'',
                                      Customer_Subs = [sub_canceled]\<rparr>\<rparr>"
    by (simp add: acc_1_def cus_1_def)
  from Unsubscribe_keeps_canceled_subscription [OF run] a r show ?thesis
    by (auto simp: c e v observations_w0)
qed

subsection \<open>Webhook events\<close>

text \<open>
  C9. For an event whose type is none of the five that the \<^verbatim>\<open>switch\<close> knows,
  \<^verbatim>\<open>StripeHook.Handle\<close> returns \<^verbatim>\<open>nil\<close> and leaves the world as it was: no call is made,
  so no Account is resolved or created and nothing is put in the store.
\<close>

theorem StripeHook_unrecognized_event:
  assumes "Body r = Inr body" and "json_Unmarshal_Event h body = Inr event"
    and "Event_Type event \<notin> {''customer.created'', ''customer.updated'',
           ''customer.subscription.created'', ''customer.subscription.updated'',
           ''customer.subscription.deleted''}"
  shows "StripeHook_Handle h r a w = (Return None, w)"
  using assms by (simp add: StripeHook_Handle_def StripeHook_switch_def)

theorem StripeHook_unrecognized_event_witness:
  "StripeHook_Handle (server acc_1 cus_1) (post_event ''invoice.created'') None w0
     = (Return None, w0)"
proof -
  have b: "Body (post_event ''invoice.created'') = Inr ''invoice.created''"
    by (simp add: post_event_def)
  have u: "json_Unmarshal_Event (server acc_1 cus_1) ''invoice.created''
             = Inr (test_event ''invoice.created'' cus_1)"
    by (simp add: server_def)
  have t: "Event_Type (test_event ''invoice.created'' cus_1) \<notin>
          {''customer.created'', ''customer.updated'',
           ''customer.subscription.created'', ''customer.subscription.updated'',
           ''customer.subscription.deleted''}"
    by (simp add: test_event_def)
  from StripeHook_unrecognized_event [OF b u t] show ?thesis .
qed

text \<open>A recognized event without data: the handler panics before any call.\<close>

lemma StripeHook_event_without_Data:
  assumes "Body r = Inr body" and "json_Unmarshal_Event h body = Inr event"
    and "Event_Type event \<in> {''customer.created'', ''customer.updated'',
           ''customer.subscription.created'', ''customer.subscription.updated'',
           ''customer.subscription.deleted''}"
    and "Event_Data event = None"
  shows "StripeHook_Handle h r a w = (NilPanic, w)"
  using assms
  by (auto simp: StripeHook_Handle_def StripeHook_switch_def GetObjValue_def)

lemma StripeHook_switch_yields:
  "yields_Customer h event c \<Longrightarrow>
   \<exists>w1. StripeHook_switch h event w = (Inr (Some c), w1)
     \<and> Storage_Puts w1 = Storage_Puts w \<and> store w1 = store w"
  by (auto simp: yields_Customer_def StripeHook_switch_def GetObjValue_def
        Storage_Puts_invoke store_invoke split: option.splits)

lemma StripeHook_apply_present:
  assumes "AccountFromEmail h (Customer_Email c) True = Inr acc"
    and "Account_Customer acc = Some old"
    and "acc1 = (if Customer_ID old = Customer_ID c
                 then acc\<lparr>Account_Customer := Some c\<rparr> else acc)"
  shows "fst (StripeHook_apply h r event c w) = Return (Storage_Put_error h acc1)
     \<and> Storage_Puts (snd (StripeHook_apply h r event c w)) = Storage_Puts w @ [acc1]
     \<and> store (snd (StripeHook_apply h r event c w)) =
         (if Storage_Put_error h acc1 = None then (store w)(Account_Email acc \<mapsto> acc1)
          else store w)"
  using assms
  by (auto simp: StripeHook_apply_def Let_def Storage_Put_def Storage_Puts_def invoke_def
           split: option.splits)

lemma StripeHook_Handle_present:
  assumes body: "Body r = Inr body" and event: "json_Unmarshal_Event h body = Inr event"
    and c: "yields_Customer h event c"
    and acc: "AccountFromEmail h (Customer_Email c) True = Inr acc"
    and old: "Account_Customer acc = Some old"
    and acc1: "acc1 = (if Customer_ID old = Customer_ID c
                       then acc\<lparr>Account_Customer := Some c\<rparr> else acc)"
  shows "fst (StripeHook_Handle h r a w) = Return (Storage_Put_error h acc1)
     \<and> Storage_Puts (snd (StripeHook_Handle h r a w)) = Storage_Puts w @ [acc1]
     \<and> store (snd (StripeHook_Handle h r a w)) =
         (if Storage_Put_error h acc1 = None then (store w)(Account_Email acc \<mapsto> acc1)
          else store w)"
proof -
  from StripeHook_switch_yields [OF c] obtain w1 where
    sw: "StripeHook_switch h event w = (Inr (Some c), w1)"
    and w1: "Storage_Puts w1 = Storage_Puts w" "store w1 = store w"
    by blast
  have "StripeHook_Handle h r a w = StripeHook_apply h r event c w1"
    by (simp add: StripeHook_Handle_def body event sw)
  with StripeHook_apply_present [OF acc old acc1, of r event w1] w1
  show ?thesis by simp
qed

lemma test_event_yields:
  "yields_Customer (server acc c) (test_event ''customer.updated'' c) c"
  by (simp add: yields_Customer_def server_def test_event_def)

lemma server_answers:
  "json_Unmarshal_Event (server acc c) body = Inr (test_event body c)"
  "AccountFromEmail (server acc c) email create = Inr acc"
  "Storage_Put_error (server acc c) acc' = None"
  by (simp_all add: server_def)

lemma Put_fails_answers:
  "json_Unmarshal_Event (Put_fails e (server acc c)) body = Inr (test_event body c)"
  "AccountFromEmail (Put_fails e (server acc c)) email create = Inr acc"
  "Storage_Put_error (Put_fails e (server acc c)) acc' = Some e"
  "yields_Customer (Put_fails e (server acc c)) (test_event ''customer.updated'' c) c"
  by (simp_all add: server_def Put_fails_def yields_Customer_def test_event_def)

lemma Body_post_event: "Body (post_event body) = Inr body"
  by (simp add: post_event_def)

lemma customers:
  "Account_Customer acc_1 = Some cus_1" "Account_Customer acc_fresh = None"
  "Customer_ID cus_1 = Customer_ID cus_1_new" "Customer_ID cus_1 \<noteq> Customer_ID cus_2"
  "Account_Email acc_1 = ''a@b.com''"
  by (simp_all add: acc_1_def acc_fresh_def cus_1_def cus_1_new_def cus_2_def)

lemma StripeHook_apply_absent:
  assumes "AccountFromEmail h (Customer_Email c) True = Inr acc"
    and "Account_Customer acc = None"
  shows "StripeHook_apply h r event c w =
           (NilPanic, invoke (Call_AccountFromEmail (Customer_Email c) True) w)"
  using assms by (simp add: StripeHook_apply_def Let_def)

text \<open>Where the resolved Account has no Customer, every recognized event that yields a
  Customer ends in the panic of \<^verbatim>\<open>acc.Customer.ID\<close> (line 234): nothing is overwritten,
  nothing is put, the store is as it was.\<close>

lemma StripeHook_absent_Customer:
  assumes body: "Body r = Inr body" and event: "json_Unmarshal_Event h body = Inr event"
    and c: "yields_Customer h event c"
    and acc: "AccountFromEmail h (Customer_Email c) True = Inr acc"
    and none: "Account_Customer acc = None"
  shows "fst (StripeHook_Handle h r a w) = NilPanic
     \<and> Storage_Puts (snd (StripeHook_Handle h r a w)) = Storage_Puts w
     \<and> store (snd (StripeHook_Handle h r a w)) = store w"
proof -
  from StripeHook_switch_yields [OF c] obtain w1 where
    sw: "StripeHook_switch h event w = (Inr (Some c), w1)"
    and w1: "Storage_Puts w1 = Storage_Puts w" "store w1 = store w"
    by blast
  have "StripeHook_Handle h r a w = StripeHook_apply h r event c w1"
    by (simp add: StripeHook_Handle_def body event sw)
  with StripeHook_apply_absent [OF acc none, of r event w1] w1
  show ?thesis by (simp add: Storage_Puts_invoke store_invoke)
qed

text \<open>
  C1. The claim asks that the Customer field be overwritten when the Account has no
  Customer yet. The code does not do it: for the Account \<open>a@b.com\<close> without Customer, the
  customer-updated event carrying \<open>cus_1\<close> makes the handler resolve the Account and then
  panic on \<^verbatim>\<open>acc.Customer.ID\<close> (line 234), which reads through the \<^verbatim>\<open>nil\<close> pointer; no
  \<^verbatim>\<open>Storage.Put\<close> follows and no success is returned.
\<close>

theorem StripeHook_absent_Customer_panics:
  "Account_Customer acc_fresh = None
   \<and> yields_Customer (server acc_fresh cus_1) (test_event ''customer.updated'' cus_1) cus_1
   \<and> StripeHook_Handle (server acc_fresh cus_1) (post_event ''customer.updated'') None w0
       = (NilPanic, invoke (Call_AccountFromEmail ''a@b.com'' True) w0)"
  by (simp add: yields_Customer_def handlers inputs)

text \<open>
  The guard where the Account has a Customer. For a recognized event that yields a
  Customer \<open>c\<close>, when the Account resolved by \<open>c\<close>'s email has a Customer \<open>old\<close>, the
  Account the handler goes on with (the one it hands to \<^verbatim>\<open>Storage.Put\<close>) has its
  Customer field overwritten with \<open>c\<close> if the ID of \<open>old\<close> equals the ID of \<open>c\<close>, and is
  the resolved Account unchanged if the IDs differ.
\<close>

theorem StripeHook_same_ID_guard:
  assumes "Body r = Inr body" and "json_Unmarshal_Event h body = Inr event"
    and "yields_Customer h event c"
    and "AccountFromEmail h (Customer_Email c) True = Inr acc"
    and "Account_Customer acc = Some old"
  shows "\<exists>acc1. Storage_Puts (snd (StripeHook_Handle h r a w)) = Storage_Puts w @ [acc1]
           \<and> (Customer_ID old = Customer_ID c \<longrightarrow> acc1 = acc\<lparr>Account_Customer := Some c\<rparr>)
           \<and> (Customer_ID old \<noteq> Customer_ID c \<longrightarrow> acc1 = acc)"
  using StripeHook_Handle_present [OF assms refl, of a w] by auto

text \<open>The Account with customer \<open>cus_1\<close>: an event carrying \<open>cus_1\<close> anew overwrites the
  field, an event carrying \<open>cus_2\<close> (same email) does not.\<close>

theorem StripeHook_same_ID_guard_witness:
  "Storage_Puts (snd (StripeHook_Handle (server acc_1 cus_1_new)
                        (post_event ''customer.updated'') None w0))
     = [acc_1\<lparr>Account_Customer := Some cus_1_new\<rparr>]
   \<and> Storage_Puts (snd (StripeHook_Handle (server acc_1 cus_2)
                        (post_event ''customer.updated'') None w0))
     = [acc_1]"
  using
    StripeHook_same_ID_guard [where w = w0 and a = None,
      OF Body_post_event server_answers(1) test_event_yields server_answers(2) customers(1),
      of cus_1_new]
    StripeHook_same_ID_guard [where w = w0 and a = None,
      OF Body_post_event server_answers(1) test_event_yields server_answers(2) customers(1),
      of cus_2]
    customers(3,4)
  by (auto simp: observations_w0)

text \<open>
  C2, as stated, fails: when the guard fails the Account is handed to \<^verbatim>\<open>Storage.Put\<close>
  all the same (the store, empty before, holds it afterwards), and when that put fails
  the handler returns its error.
\<close>

theorem StripeHook_guard_fails_Put_called:
  "Account_Customer acc_1 = Some cus_1 \<and> Customer_ID cus_1 \<noteq> Customer_ID cus_2
   \<and> store w0 ''a@b.com'' = None
   \<and> fst (StripeHook_Handle (server acc_1 cus_2) (post_event ''customer.updated'') None w0)
       = Return None
   \<and> Storage_Puts (snd (StripeHook_Handle (server acc_1 cus_2)
                          (post_event ''customer.updated'') None w0)) = [acc_1]
   \<and> store (snd (StripeHook_Handle (server acc_1 cus_2)
                   (post_event ''customer.updated'') None w0)) ''a@b.com'' = Some acc_1
   \<and> fst (StripeHook_Handle (Put_fails (OtherError ''disk full'') (server acc_1 cus_2))
             (post_event ''customer.updated'') None w0)
       = Return (Some (OtherError ''disk full''))"
  by (simp add: handlers inputs Storage_Puts_def)

text \<open>
  C2, amended. For a recognized event whose guard fails (the Account has a Customer with
  another ID), the Account is left as resolved and is handed to \<^verbatim>\<open>Storage.Put\<close>; the
  handler returns what the put returns: \<^verbatim>\<open>nil\<close>, with the unchanged Account stored
  under its email, or the put's error, with the store as it was.
\<close>

theorem StripeHook_guard_fails_still_Put:
  assumes "Body r = Inr body" and "json_Unmarshal_Event h body = Inr event"
    and "yields_Customer h event c"
    and "AccountFromEmail h (Customer_Email c) True = Inr acc"
    and "Account_Customer acc = Some old"
    and "Customer_ID old \<noteq> Customer_ID c"
  shows "fst (StripeHook_Handle h r a w) = Return (Storage_Put_error h acc)
     \<and> Storage_Puts (snd (StripeHook_Handle h r a w)) = Storage_Puts w @ [acc]
     \<and> store (snd (StripeHook_Handle h r a w)) =
         (if Storage_Put_error h acc = None then (store w)(Account_Email acc \<mapsto> acc)
          else store w)"
  using StripeHook_Handle_present [OF assms(1-5) refl, of a w] assms(6) by simp

theorem StripeHook_guard_fails_still_Put_witness:
  "fst (StripeHook_Handle (server acc_1 cus_2) (post_event ''customer.updated'') None w0)
     = Return None
   \<and> Storage_Puts (snd (StripeHook_Handle (server acc_1 cus_2)
                          (post_event ''customer.updated'') None w0)) = [acc_1]
   \<and> store (snd (StripeHook_Handle (server acc_1 cus_2)
                   (post_event ''customer.updated'') None w0)) = (store w0)(''a@b.com'' \<mapsto> acc_1)
   \<and> fst (StripeHook_Handle (Put_fails (OtherError ''disk full'') (server acc_1 cus_2))
             (post_event ''customer.updated'') None w0)
       = Return (Some (OtherError ''disk full''))
   \<and> store (snd (StripeHook_Handle (Put_fails (OtherError ''disk full'') (server acc_1 cus_2))
             (post_event ''customer.updated'') None w0)) = store w0"
  using
    StripeHook_guard_fails_still_Put [where w = w0 and a = None,
      OF Body_post_event server_answers(1) test_event_yields server_answers(2) customers(1,4)]
    StripeHook_guard_fails_still_Put [where w = w0 and a = None,
      OF Body_post_event Put_fails_answers(1) Put_fails_answers(4) Put_fails_answers(2)
         customers(1,4)]
  by (simp add: observations_w0 server_answers Put_fails_answers customers)


end
